theory Spec2Isabelle
  imports Main "HOL-Library.Word"
begin

section \<open>Strings, numbers and the library functions the handlers use\<close>

text \<open>
  Go strings and byte slices are modelled as \<open>string\<close> (a list of 8-bit characters).
  The keyed hash \<open>crypto/hmac\<close> with \<open>crypto/sha256\<close> belongs to the Go standard
  library, not to this repository: every function that calls it takes it as the
  parameter \<open>hm\<close>, mapping a key and a message to the raw digest bytes.
\<close>

type_synonym hmac_fn = "string \<Rightarrow> string \<Rightarrow> string"

text \<open>\<open>fmt.Sprintf("%x", digest)\<close>: two lower-case hexadecimal digits per byte.\<close>

definition hex_digit :: "nat \<Rightarrow> char" where
  "hex_digit n = (''0123456789abcdef'') ! (n mod 16)"

definition hex_byte :: "char \<Rightarrow> string" where
  "hex_byte c = [hex_digit ((of_char c :: nat) div 16), hex_digit ((of_char c :: nat) mod 16)]"

definition hex :: "string \<Rightarrow> string" where
  "hex bs = concat (map hex_byte bs)"

text \<open>\<open>strings.TrimPrefix\<close>: drops the prefix when it is there, else returns the string.\<close>

fun has_prefix :: "string \<Rightarrow> string \<Rightarrow> bool" where
  "has_prefix s [] = True"
| "has_prefix [] (p # ps) = False"
| "has_prefix (c # cs) (p # ps) = (c = p \<and> has_prefix cs ps)"

definition TrimPrefix :: "string \<Rightarrow> string \<Rightarrow> string" where
  "TrimPrefix s p = (if has_prefix s p then drop (length p) s else s)"

text \<open>\<open>hmac.Equal\<close> compares two byte slices in constant time; its result is equality.\<close>

definition hmac_Equal :: "string \<Rightarrow> string \<Rightarrow> bool" where
  "hmac_Equal a b = (a = b)"

text \<open>
  \<open>strconv.ParseInt(s, 10, 64)\<close>: an optional sign, then one or more decimal digits;
  a syntax error on anything else, a range error outside the signed 64-bit range.
  Both errors are \<open>None\<close>.
\<close>

definition digit_val :: "char \<Rightarrow> nat option" where
  "digit_val c = (let n = (of_char c :: nat) in
                  if 48 \<le> n \<and> n \<le> 57 then Some (n - 48) else None)"

fun parse_digits :: "nat \<Rightarrow> string \<Rightarrow> nat option" where
  "parse_digits acc [] = Some acc"
| "parse_digits acc (c # cs) =
     (case digit_val c of None \<Rightarrow> None | Some d \<Rightarrow> parse_digits (acc * 10 + d) cs)"

definition ParseUint :: "string \<Rightarrow> nat option" where
  "ParseUint s = (if s = [] then None else parse_digits 0 s)"

definition ParseInt :: "string \<Rightarrow> int option" where
  "ParseInt s =
     (if s = [] then None
      else let neg = (hd s = CHR ''-'');
               rest = (if hd s = CHR ''+'' \<or> hd s = CHR ''-'' then tl s else s)
           in case ParseUint rest of
                None \<Rightarrow> None
              | Some un \<Rightarrow>
                  if \<not> neg \<and> un \<ge> 2 ^ 63 then None
                  else if neg \<and> un > 2 ^ 63 then None
                  else Some (if neg then - int un else int un))"

section \<open>Signature verification\<close>

text \<open>The inbound-message channel (\<open>verifyMetaSignature\<close> in whatsapp.go).\<close>

definition verifyMetaSignature :: "hmac_fn \<Rightarrow> string \<Rightarrow> string \<Rightarrow> string \<Rightarrow> bool" where
  "verifyMetaSignature hm secret body header =
     (if header = [] then False
      else let expected = TrimPrefix header ''sha256='';
               computed = hex (hm secret body)
           in hmac_Equal computed expected)"

text \<open>
  The escalation-callback channel (\<open>verifySlackSignature\<close> in slack.go). The reading
  \<open>time.Now().Unix()\<close> is the parameter \<open>now\<close>, a signed 64-bit integer as in Go; the
  subtraction \<open>now - ts\<close> is the 64-bit one, which wraps around, and the comparison
  with 300 is signed.
\<close>

type_synonym int64 = "64 word"

definition verifySlackSignature ::
  "hmac_fn \<Rightarrow> int64 \<Rightarrow> string \<Rightarrow> string \<Rightarrow> string \<Rightarrow> string \<Rightarrow> bool" where
  "verifySlackSignature hm now signingSecret timestamp body signature =
     (if timestamp = [] \<or> signature = [] then False
      else case ParseInt timestamp of
             None \<Rightarrow> False
           | Some n \<Rightarrow>
               let ts = (word_of_int n :: int64) in
               if 300 <s now - ts then False
               else let baseString = ''v0:'' @ timestamp @ '':'' @ body;
                        computed = ''v0='' @ hex (hm signingSecret baseString)
                    in hmac_Equal computed signature)"

text \<open>The signatures a sender computes (the test helpers \<open>metaSignature\<close>, \<open>slackSignature\<close>).\<close>

definition metaSignature :: "hmac_fn \<Rightarrow> string \<Rightarrow> string \<Rightarrow> string" where
  "metaSignature hm secret body = ''sha256='' @ hex (hm secret body)"

definition slackSignature :: "hmac_fn \<Rightarrow> string \<Rightarrow> string \<Rightarrow> string \<Rightarrow> string" where
  "slackSignature hm secret timestamp body =
     ''v0='' @ hex (hm secret (''v0:'' @ timestamp @ '':'' @ body))"

section \<open>Data model (models.go)\<close>

record WAText =
  Body :: string

record WAMessage =
  From :: string
  WAID :: string
  Type :: string
  Text :: "WAText option"

record WAValue =
  Messages :: "WAMessage list"

record WAChange =
  Value :: WAValue

record WAEntry =
  Changes :: "WAChange list"

record WAPayload =
  Object :: string
  Entry :: "WAEntry list"

text \<open>A message row; \<open>created_at\<close> is filled in by the database and read by no handler.\<close>

record Message =
  ID :: string
  ConversationID :: string
  Role :: string
  Content :: string

record LLMMessage =
  msg_Role :: string
  msg_Content :: string

record ExtractedData =
  Address :: string
  ElevatorAccess :: string
  Stairs :: string
  Inventory :: string

record LLMResponse =
  ReplyToUser :: string
  Extracted :: ExtractedData
  Action :: string

record SlackUser =
  UserID :: string
  Username :: string

record SlackAction =
  ActionID :: string
  ActionValue :: string

record SlackInteractivePayload =
  PayloadType :: string
  User :: SlackUser
  Actions :: "SlackAction list"

record Config =
  MetaVerifyToken :: string
  MetaAppSecret :: string
  MetaAccessToken :: string
  MetaPhoneNumberID :: string
  DeepSeekAPIKey :: string
  SlackWebhookURL :: string
  SlackSigningSecret :: string

section \<open>The conversation store (package database)\<close>

text \<open>
  The three tables, with the semantics of the SQL statements the package issues.
  \<open>conversations\<close> has \<open>id\<close> as primary key, so it is a map from identifier to
  status; \<open>quote_data\<close> has \<open>conversation_id\<close> as primary key, so it is a map from
  identifier to the serialised payload; \<open>messages\<close> is the list of rows in insertion
  order, which is the order of \<open>created_at\<close> and \<open>rowid\<close> for a clock that does not
  run backwards. Foreign keys are enforced (\<open>_foreign_keys=on\<close>). The errors of the
  model are those of the statements themselves: a missing row, a primary-key or a
  foreign-key violation.
\<close>

record DB =
  conversations :: "string \<rightharpoonup> string"
  messages :: "Message list"
  quote_data :: "string \<rightharpoonup> string"

datatype db_error = ErrNoRows | ErrPrimaryKey | ErrForeignKey

definition UpsertConversation :: "DB \<Rightarrow> string \<Rightarrow> db_error + DB" where
  "UpsertConversation d phoneNumber =
     (case conversations d phoneNumber of
        None \<Rightarrow> Inr (d\<lparr>conversations := (conversations d)(phoneNumber \<mapsto> ''ACTIVE'')\<rparr>)
      | Some st \<Rightarrow> Inr d)"

definition GetConversationStatus :: "DB \<Rightarrow> string \<Rightarrow> db_error + string" where
  "GetConversationStatus d phoneNumber =
     (case conversations d phoneNumber of
        None \<Rightarrow> Inl ErrNoRows
      | Some st \<Rightarrow> Inr st)"

definition PauseConversation :: "DB \<Rightarrow> string \<Rightarrow> db_error + DB" where
  "PauseConversation d phoneNumber =
     (case conversations d phoneNumber of
        None \<Rightarrow> Inr d
      | Some st \<Rightarrow> Inr (d\<lparr>conversations := (conversations d)(phoneNumber \<mapsto> ''PAUSED'')\<rparr>))"

definition MessageExists :: "DB \<Rightarrow> string \<Rightarrow> db_error + bool" where
  "MessageExists d i = Inr (0 < length (filter (\<lambda>m. ID m = i) (messages d)))"

definition InsertMessage :: "DB \<Rightarrow> Message \<Rightarrow> db_error + DB" where
  "InsertMessage d m =
     (if 0 < length (filter (\<lambda>r. ID r = ID m) (messages d)) then Inl ErrPrimaryKey
      else if conversations d (ConversationID m) = None then Inl ErrForeignKey
      else Inr (d\<lparr>messages := messages d @ [m]\<rparr>))"

text \<open>
  The query takes the newest \<open>limit\<close> rows of the conversation; the loop after it
  reverses them into chronological order.
\<close>

definition GetRecentMessages :: "DB \<Rightarrow> string \<Rightarrow> nat \<Rightarrow> db_error + Message list" where
  "GetRecentMessages d conversationID limit =
     Inr (rev (take limit (rev (filter (\<lambda>m. ConversationID m = conversationID) (messages d)))))"

definition UpsertQuoteData :: "DB \<Rightarrow> string \<Rightarrow> string \<Rightarrow> db_error + DB" where
  "UpsertQuoteData d conversationID jsonDump =
     (if conversations d conversationID = None then Inl ErrForeignKey
      else Inr (d\<lparr>quote_data := (quote_data d)(conversationID \<mapsto> jsonDump)\<rparr>))"

text \<open>Sequences of the four mutating operations; a failed statement changes nothing.\<close>

datatype store_op =
    OpUpsertConversation string
  | OpPauseConversation string
  | OpInsertMessage Message
  | OpUpsertQuoteData string string

fun run_op :: "store_op \<Rightarrow> DB \<Rightarrow> db_error + DB" where
  "run_op (OpUpsertConversation p) d = UpsertConversation d p"
| "run_op (OpPauseConversation p) d = PauseConversation d p"
| "run_op (OpInsertMessage m) d = InsertMessage d m"
| "run_op (OpUpsertQuoteData c j) d = UpsertQuoteData d c j"

definition apply_op :: "DB \<Rightarrow> store_op \<Rightarrow> DB" where
  "apply_op d opn = (case run_op opn d of Inl e \<Rightarrow> d | Inr d' \<Rightarrow> d')"

definition run_ops :: "store_op list \<Rightarrow> DB \<Rightarrow> DB" where
  "run_ops ops d = foldl apply_op d ops"

section \<open>The environment of the handlers\<close>

text \<open>
  What the handlers obtain from outside the repository: the keyed hash, the JSON and
  form decoders of the standard library, the model backend reached over HTTP, and the
  clock. \<open>http_Do\<close> stands for building the request and \<open>httpClient.Do\<close>: it maps the
  request and the credential to the outcome of the exchange. \<open>UnixNano n\<close> is the
  \<open>n\<close>-th reading of \<open>time.Now().UnixNano()\<close>.
\<close>

record deepSeekRequest =
  Model :: string
  ReqMessages :: "LLMMessage list"
  ResponseFormat :: "(string \<times> string) list"

datatype http_result =
    MarshalError
  | CreateRequestError
  | TransportError
  | HTTPResponse nat string

record env =
  hmac_sha256 :: hmac_fn
  SystemPrompt :: string
  http_Do :: "deepSeekRequest \<Rightarrow> string \<Rightarrow> http_result"
  decode_deepSeekResponse :: "string \<Rightarrow> string list option"
  unmarshal_LLMResponse :: "string \<Rightarrow> LLMResponse option"
  marshal_ExtractedData :: "ExtractedData \<Rightarrow> string"
  unmarshal_WAPayload :: "string \<Rightarrow> WAPayload option"
  form_payload :: "string \<Rightarrow> string option"
  unmarshal_SlackPayload :: "string \<Rightarrow> SlackInteractivePayload option"
  UnixNano :: "nat \<Rightarrow> int"

section \<open>The LLM gateway (deepseek.go)\<close>

datatype llm_error =
    ErrMarshalRequest
  | ErrCreateRequest
  | ErrHttpCallFailed
  | ErrUnexpectedStatus nat
  | ErrDecodeResponse
  | ErrEmptyChoices
  | ErrParseJSONContent

definition deepSeekModel :: string where
  "deepSeekModel = ''deepseek-chat''"

definition validAction :: "string \<Rightarrow> bool" where
  "validAction a = (a = ''continue'' \<or> a = ''handoff'' \<or> a = ''schedule'')"

definition fallback :: "LLMResponse" where
  "fallback =
     \<lparr>ReplyToUser = ''Sorry, I ran into a technical issue. Our team will follow up with you shortly.'',
      Extracted = \<lparr>Address = [], ElevatorAccess = [], Stairs = [], Inventory = []\<rparr>,
      Action = ''continue''\<rparr>"

text \<open>
  \<open>Call\<close> returns a pointer and an error; the pointer is an \<open>option\<close>, with \<open>None\<close>
  for nil. \<open>decode_deepSeekResponse\<close> yields the \<open>content\<close> of each choice.
  \<open>build_request\<close> is the request \<open>Call\<close> assembles, \<open>parse_reply\<close> the part of \<open>Call\<close>
  after the status check, and \<open>validate\<close> the two checks under its comment on
  required fields.
  \<open>parse_reply\<close> is the part of \<open>Call\<close> after the status check, and \<open>validate\<close> the
  two checks under "Validate required fields".
\<close>

definition validate :: "LLMResponse \<Rightarrow> LLMResponse" where
  "validate parsed =
     (let r1 = (if ReplyToUser parsed = []
                then parsed\<lparr>ReplyToUser := ''I'm looking into that, one moment!''\<rparr>
                else parsed)
      in if \<not> validAction (Action r1) then r1\<lparr>Action := ''continue''\<rparr> else r1)"

definition parse_reply :: "env \<Rightarrow> string \<Rightarrow> LLMResponse option \<times> llm_error option" where
  "parse_reply e body =
     (case decode_deepSeekResponse e body of
        None \<Rightarrow> (Some fallback, Some ErrDecodeResponse)
      | Some choices \<Rightarrow>
          if length choices = 0 then (Some fallback, Some ErrEmptyChoices)
          else (case unmarshal_LLMResponse e (hd choices) of
                  None \<Rightarrow> (Some fallback, Some ErrParseJSONContent)
                | Some parsed \<Rightarrow> (Some (validate parsed), None)))"

definition build_request :: "env \<Rightarrow> Message list \<Rightarrow> deepSeekRequest" where
  "build_request e history =
     (let msgs = \<lparr>msg_Role = ''system'', msg_Content = SystemPrompt e\<rparr>
                 # map (\<lambda>m. \<lparr>msg_Role = Role m, msg_Content = Content m\<rparr>) history
      in \<lparr>Model = deepSeekModel, ReqMessages = msgs,
          ResponseFormat = [(''type'', ''json_object'')]\<rparr>)"

definition Call :: "env \<Rightarrow> string \<Rightarrow> Message list \<Rightarrow> LLMResponse option \<times> llm_error option" where
  "Call e apiKey history =
     (case http_Do e (build_request e history) apiKey of
        MarshalError \<Rightarrow> (Some fallback, Some ErrMarshalRequest)
      | CreateRequestError \<Rightarrow> (Some fallback, Some ErrCreateRequest)
      | TransportError \<Rightarrow> (Some fallback, Some ErrHttpCallFailed)
      | HTTPResponse code body \<Rightarrow>
          if code \<noteq> 200 then (Some fallback, Some (ErrUnexpectedStatus code))
          else parse_reply e body)"

section \<open>The inbound pipeline (whatsapp.go)\<close>

text \<open>
  The state the pipeline works on: the store, the keys of the lock table, the log of
  outbound sends (recipient and body), the log of gateway invocations (credential
  and transcript), the log of escalation notifications, and the number of clock
  readings taken so far. A send or a notification that fails is only logged by the
  code, so the model records the attempt.
\<close>

record world =
  db :: DB
  conversationLocks :: "string set"
  sent :: "(string \<times> string) list"
  llm_calls :: "(string \<times> Message list) list"
  slack_posts :: "(string \<times> ExtractedData) list"
  ticks :: nat

text \<open>
  A handler either returns or panics; the panic of a nil dereference unwinds to the
  \<open>recover\<close> of the goroutine, after the deferred unlock.
\<close>

datatype 'w outcome = Returned 'w | Panicked 'w

fun state_of :: "'w outcome \<Rightarrow> 'w" where
  "state_of (Returned w) = w"
| "state_of (Panicked w) = w"

definition lockFor :: "string \<Rightarrow> world \<Rightarrow> world" where
  "lockFor phone w = w\<lparr>conversationLocks := insert phone (conversationLocks w)\<rparr>"

definition sendWhatsApp :: "Config \<Rightarrow> string \<Rightarrow> string \<Rightarrow> world \<Rightarrow> world" where
  "sendWhatsApp cfg to body w = w\<lparr>sent := sent w @ [(to, body)]\<rparr>"

definition sendSlackHandoff :: "Config \<Rightarrow> string \<Rightarrow> LLMResponse \<Rightarrow> world \<Rightarrow> world" where
  "sendSlackHandoff cfg phone llmResp w =
     w\<lparr>slack_posts := slack_posts w @ [(phone, Extracted llmResp)]\<rparr>"

text \<open>\<open>fmt.Sprintf("%d", n)\<close> for the synthesised identifier of the assistant message.\<close>

definition digit_char :: "nat \<Rightarrow> char" where
  "digit_char n = (''0123456789'') ! (n mod 10)"

fun nat_digits :: "nat \<Rightarrow> string" where
  "nat_digits n =
     (if n < 10 then [digit_char n]
      else nat_digits (n div 10) @ [digit_char (n mod 10)])"

declare nat_digits.simps [simp del]

definition itoa :: "int \<Rightarrow> string" where
  "itoa i = (if i < 0 then CHR ''-'' # nat_digits (nat (- i)) else nat_digits (nat i))"

definition assistantMsgID :: "string \<Rightarrow> int \<Rightarrow> string" where
  "assistantMsgID phone t = ''assistant-'' @ phone @ ''-'' @ itoa t"

definition unsupported_reply :: string where
  "unsupported_reply = ''Sorry, I can only handle text messages right now.''"

definition paused_reply :: string where
  "paused_reply = ''Our team is handling your request directly. We'll be in touch shortly!''"

definition booking_suffix :: string where
  "booking_suffix = [CHR 0x0A, CHR 0x0A] @
     ''You can pick a time for an on-site assessment here: https://bookings.clearoutspaces.ca/clearoutspaces/assessment''"

text \<open>The \<open>switch\<close> on the action tag at the end of \<open>handleMessage\<close>.\<close>

definition dispatch :: "Config \<Rightarrow> string \<Rightarrow> LLMResponse \<Rightarrow> world \<Rightarrow> world" where
  "dispatch cfg phone llmResp w =
     (if Action llmResp = ''handoff''
      then sendWhatsApp cfg phone (ReplyToUser llmResp) (sendSlackHandoff cfg phone llmResp w)
      else if Action llmResp = ''schedule''
      then sendWhatsApp cfg phone (ReplyToUser llmResp @ booking_suffix) w
      else sendWhatsApp cfg phone (ReplyToUser llmResp) w)"

text \<open>
  The part of \<open>handleMessage\<close> from the gateway call on: invoke the gateway, store the
  assistant reply under the synthesised identifier, store the extracted data, dispatch.
  The results of both writes are discarded by the code. \<open>marshal_ExtractedData\<close> is
  \<open>json.Marshal\<close> on a struct of four strings, which returns no error.
\<close>

definition respond :: "env \<Rightarrow> Config \<Rightarrow> string \<Rightarrow> Message list \<Rightarrow> world \<Rightarrow> world outcome" where
  "respond e cfg phone history w =
     (let w1 = w\<lparr>llm_calls := llm_calls w @ [(DeepSeekAPIKey cfg, history)]\<rparr> in
      case fst (Call e (DeepSeekAPIKey cfg) history) of
        None \<Rightarrow> Panicked w1
      | Some llmResp \<Rightarrow>
          let t = UnixNano e (ticks w1);
              w2 = w1\<lparr>ticks := Suc (ticks w1)\<rparr>;
              reply = \<lparr>ID = assistantMsgID phone t, ConversationID = phone,
                       Role = ''assistant'', Content = ReplyToUser llmResp\<rparr>;
              w3 = (case InsertMessage (db w2) reply of
                      Inl err \<Rightarrow> w2
                    | Inr d \<Rightarrow> w2\<lparr>db := d\<rparr>);
              w4 = (case UpsertQuoteData (db w3) phone (marshal_ExtractedData e (Extracted llmResp)) of
                      Inl err \<Rightarrow> w3
                    | Inr d \<Rightarrow> w3\<lparr>db := d\<rparr>)
          in Returned (dispatch cfg phone llmResp w4))"

text \<open>The part of \<open>handleMessage\<close> after the conversation row is ensured: the state gate.\<close>

definition gate :: "env \<Rightarrow> Config \<Rightarrow> WAMessage \<Rightarrow> string \<Rightarrow> world \<Rightarrow> world outcome" where
  "gate e cfg msg body w =
     (let phone = From msg;
          inbound = \<lparr>ID = WAID msg, ConversationID = phone, Role = ''user'', Content = body\<rparr>
      in case GetConversationStatus (db w) phone of
           Inl err \<Rightarrow> Returned w
         | Inr status \<Rightarrow>
             if status = ''PAUSED''
             then (let w1 = (case InsertMessage (db w) inbound of
                               Inl err \<Rightarrow> w
                             | Inr d \<Rightarrow> w\<lparr>db := d\<rparr>)
                   in Returned (sendWhatsApp cfg phone paused_reply w1))
             else (case InsertMessage (db w) inbound of
                     Inl err \<Rightarrow> Returned w
                   | Inr d \<Rightarrow>
                       (case GetRecentMessages d phone 20 of
                          Inl err \<Rightarrow> Returned (w\<lparr>db := d\<rparr>)
                        | Inr history \<Rightarrow> respond e cfg phone history (w\<lparr>db := d\<rparr>))))"

definition handleMessage :: "env \<Rightarrow> Config \<Rightarrow> WAMessage \<Rightarrow> world \<Rightarrow> world outcome" where
  "handleMessage e cfg msg w =
     (if Type msg \<noteq> ''text'' \<or> Text msg = None
      then Returned (sendWhatsApp cfg (From msg) unsupported_reply w)
      else (let phone = From msg;
                w1 = lockFor phone w
            in case MessageExists (db w1) (WAID msg) of
                 Inl err \<Rightarrow> Returned w1
               | Inr exists \<Rightarrow>
                   if exists then Returned w1
                   else (case UpsertConversation (db w1) phone of
                           Inl err \<Rightarrow> Returned w1
                         | Inr d \<Rightarrow> gate e cfg msg (Body (the (Text msg))) (w1\<lparr>db := d\<rparr>))))"

text \<open>
  \<open>processInbound\<close>, for any per-message handler \<open>h\<close>: the guard on the first entry and
  its first change, then the three nested loops. A panic of the handler ends the run.
\<close>

fun handle_all :: "('m \<Rightarrow> 'w \<Rightarrow> 'w outcome) \<Rightarrow> 'm list \<Rightarrow> 'w \<Rightarrow> 'w outcome" where
  "handle_all h [] w = Returned w"
| "handle_all h (m # ms) w =
     (case h m w of
        Panicked w' \<Rightarrow> Panicked w'
      | Returned w' \<Rightarrow> handle_all h ms w')"

definition batch :: "WAPayload \<Rightarrow> WAMessage list" where
  "batch payload = concat (map (\<lambda>entry. concat (map (\<lambda>change. Messages (Value change)) (Changes entry))) (Entry payload))"

definition processInbound ::
  "(string \<Rightarrow> WAPayload option) \<Rightarrow> (WAMessage \<Rightarrow> 'w \<Rightarrow> 'w outcome) \<Rightarrow> string \<Rightarrow> 'w \<Rightarrow> 'w outcome" where
  "processInbound unmarshal h rawBody w =
     (case unmarshal rawBody of
        None \<Rightarrow> Returned w
      | Some payload \<Rightarrow>
          if length (Entry payload) = 0
             \<or> length (Changes (hd (Entry payload))) = 0
             \<or> length (Messages (Value (hd (Changes (hd (Entry payload)))))) = 0
          then Returned w
          else handle_all h (batch payload) w)"

text \<open>
  \<open>HandleWhatsAppMessage\<close>: the status code answered, and the state after the
  detached processing has ended (its panic recovered).
\<close>

definition HandleWhatsAppMessage ::
  "env \<Rightarrow> Config \<Rightarrow> string option \<Rightarrow> string \<Rightarrow> world \<Rightarrow> nat \<times> world" where
  "HandleWhatsAppMessage e cfg body signature w =
     (case body of
        None \<Rightarrow> (400, w)
      | Some rawBody \<Rightarrow>
          if \<not> verifyMetaSignature (hmac_sha256 e) (MetaAppSecret cfg) rawBody signature
          then (403, w)
          else (200, state_of (processInbound (unmarshal_WAPayload e) (handleMessage e cfg) rawBody w)))"

section \<open>The escalation callback (slack.go)\<close>

text \<open>
  What the handler writes: a status with a plain-text body (\<open>http.Error\<close>), a bare
  status, or status 200 with the JSON object of \<open>replace_original\<close> and \<open>text\<close>.
\<close>

datatype response =
    HttpError nat string
  | StatusOnly nat
  | ReplaceOriginal bool string

record slack_request =
  req_body :: "string option"
  X_Slack_Request_Timestamp :: string
  X_Slack_Signature :: string

definition not_found_text :: string where
  "not_found_text = [CHR 0xE2, CHR 0x9A, CHR 0xA0, CHR 0xEF, CHR 0xB8, CHR 0x8F] @ '' Conversation not found.''"

definition already_paused_text :: string where
  "already_paused_text = [CHR 0xE2, CHR 0x84, CHR 0xB9, CHR 0xEF, CHR 0xB8, CHR 0x8F] @ '' Chat was already paused.''"

definition paused_by_text :: "string \<Rightarrow> string" where
  "paused_by_text username =
     [CHR 0xE2, CHR 0x9C, CHR 0x85] @ '' Chat paused. '' @ username @ '' has taken over the conversation.''"

text \<open>Steps 4 to 6 of the handler, for the conversation named by the action.\<close>

definition take_over :: "SlackInteractivePayload \<Rightarrow> string \<Rightarrow> DB \<Rightarrow> response \<times> DB" where
  "take_over slackPayload phone d =
     (case GetConversationStatus d phone of
        Inl err \<Rightarrow> (ReplaceOriginal True not_found_text, d)
      | Inr status \<Rightarrow>
          if status = ''PAUSED'' then (ReplaceOriginal True already_paused_text, d)
          else (case PauseConversation d phone of
                  Inl err \<Rightarrow> (HttpError 500 ''internal error'', d)
                | Inr d' \<Rightarrow> (ReplaceOriginal True (paused_by_text (Username (User slackPayload))), d')))"

text \<open>Step 3 of the handler: decoding the form and the embedded action.\<close>

definition decode_and_act :: "env \<Rightarrow> string \<Rightarrow> DB \<Rightarrow> response \<times> DB" where
  "decode_and_act e rawBody d =
     (case form_payload e rawBody of
        None \<Rightarrow> (HttpError 400 ''bad request'', d)
      | Some payloadJSON \<Rightarrow>
          if payloadJSON = [] then (HttpError 400 ''missing payload'', d)
          else (case unmarshal_SlackPayload e payloadJSON of
                  None \<Rightarrow> (HttpError 400 ''bad request'', d)
                | Some slackPayload \<Rightarrow>
                    if length (Actions slackPayload) = 0 then (HttpError 400 ''no actions'', d)
                    else (let action = hd (Actions slackPayload) in
                          if ActionID action \<noteq> ''take_over_chat'' then (StatusOnly 200, d)
                          else take_over slackPayload (ActionValue action) d)))"

definition HandleSlackInteractive ::
  "env \<Rightarrow> Config \<Rightarrow> int64 \<Rightarrow> slack_request \<Rightarrow> DB \<Rightarrow> response \<times> DB" where
  "HandleSlackInteractive e cfg now r d =
     (case req_body r of
        None \<Rightarrow> (HttpError 400 ''bad request'', d)
      | Some rawBody \<Rightarrow>
          if \<not> verifySlackSignature (hmac_sha256 e) now (SlackSigningSecret cfg)
                  (X_Slack_Request_Timestamp r) rawBody (X_Slack_Signature r)
          then (HttpError 403 ''forbidden'', d)
          else decode_and_act e rawBody d)"

section \<open>Concrete inputs\<close>

text \<open>
  Small inputs on which the theorems below are instantiated: a stand-in for the keyed
  hash, a configuration, a text message, a payload whose first change carries no
  message and whose second carries one, an environment whose backend answers 503 and
  one whose backend answers 200, and stores with one conversation.
\<close>

definition demo_hmac :: hmac_fn where
  "demo_hmac key m = key @ m"

definition demo_cfg :: Config where
  "demo_cfg = \<lparr>MetaVerifyToken = ''verify'', MetaAppSecret = ''app'', MetaAccessToken = ''token'',
                MetaPhoneNumberID = ''42'', DeepSeekAPIKey = ''key'', SlackWebhookURL = ''hook'',
                SlackSigningSecret = ''sec''\<rparr>"

definition demo_action :: SlackAction where
  "demo_action = \<lparr>ActionID = ''take_over_chat'', ActionValue = ''15550001''\<rparr>"

definition demo_slack_payload :: SlackInteractivePayload where
  "demo_slack_payload = \<lparr>PayloadType = ''block_actions'',
      User = \<lparr>UserID = ''U1'', Username = ''ana''\<rparr>, Actions = [demo_action]\<rparr>"

definition demo_msg :: WAMessage where
  "demo_msg = \<lparr>From = ''15550001'', WAID = ''wamid.1'', Type = ''text'', Text = Some \<lparr>Body = ''hi''\<rparr>\<rparr>"

definition receipt_then_message :: WAPayload where
  "receipt_then_message = \<lparr>Object = ''whatsapp_business_account'',
      Entry = [\<lparr>Changes = [\<lparr>Value = \<lparr>Messages = []\<rparr>\<rparr>, \<lparr>Value = \<lparr>Messages = [demo_msg]\<rparr>\<rparr>]\<rparr>]\<rparr>"

definition demo_env :: env where
  "demo_env = \<lparr>hmac_sha256 = demo_hmac, SystemPrompt = ''prompt'',
      http_Do = (\<lambda>req key. HTTPResponse 503 []),
      decode_deepSeekResponse = (\<lambda>b. Some [b]),
      unmarshal_LLMResponse = (\<lambda>c. Some \<lparr>ReplyToUser = [],
          Extracted = \<lparr>Address = c, ElevatorAccess = [], Stairs = [], Inventory = []\<rparr>,
          Action = ''later''\<rparr>),
      marshal_ExtractedData = (\<lambda>x. Address x @ '','' @ ElevatorAccess x @ '','' @ Stairs x @ '','' @ Inventory x),
      unmarshal_WAPayload = (\<lambda>raw. Some receipt_then_message),
      form_payload = (\<lambda>raw. Some raw),
      unmarshal_SlackPayload = (\<lambda>p. Some demo_slack_payload),
      UnixNano = (\<lambda>n. 5 + int n)\<rparr>"

definition demo_env_up :: env where
  "demo_env_up = demo_env\<lparr>http_Do := (\<lambda>req key. HTTPResponse 200 ''x'')\<rparr>"

definition demo_db :: "string \<Rightarrow> DB" where
  "demo_db st = \<lparr>conversations = [''15550001'' \<mapsto> st], messages = [],
                  quote_data = [''15550001'' \<mapsto> ''old'']\<rparr>"

definition seen_db :: DB where
  "seen_db = \<lparr>conversations = [''15550001'' \<mapsto> ''ACTIVE''],
      messages = [\<lparr>ID = ''wamid.1'', ConversationID = ''15550001'', Role = ''user'', Content = ''hi''\<rparr>],
      quote_data = Map.empty\<rparr>"

definition world_of :: "DB \<Rightarrow> world" where
  "world_of d = \<lparr>db = d, conversationLocks = {}, sent = [], llm_calls = [], slack_posts = [], ticks = 0\<rparr>"

definition demo_request :: slack_request where
  "demo_request = \<lparr>req_body = Some ''payload'', X_Slack_Request_Timestamp = ''1700000000'',
      X_Slack_Signature = slackSignature demo_hmac ''sec'' ''1700000000'' ''payload''\<rparr>"

text \<open>
  A callback payload that carries the take-over action in second position, after
  another action, and an environment whose decoder yields it.
\<close>

definition other_action :: SlackAction where
  "other_action = \<lparr>ActionID = ''view_details'', ActionValue = ''15550001''\<rparr>"

definition take_over_second_payload :: SlackInteractivePayload where
  "take_over_second_payload = \<lparr>PayloadType = ''block_actions'',
      User = \<lparr>UserID = ''U1'', Username = ''ana''\<rparr>, Actions = [other_action, demo_action]\<rparr>"

definition demo_env_second :: env where
  "demo_env_second = demo_env\<lparr>unmarshal_SlackPayload := (\<lambda>p. Some take_over_second_payload)\<rparr>"

section \<open>Signature verification: properties\<close>

lemma ParseInt_nonempty: "ParseInt s = Some n \<Longrightarrow> s \<noteq> []"
  by (auto simp: ParseInt_def)

lemma ParseInt_range: "ParseInt s = Some n \<Longrightarrow> - (2 ^ 63) \<le> n \<and> n < 2 ^ 63"
  by (auto simp: ParseInt_def Let_def split: if_splits option.splits)

lemma sint_int64_of_int:
  "- (2 ^ 63) \<le> n \<Longrightarrow> n < 2 ^ 63 \<Longrightarrow> sint (word_of_int n :: int64) = n"
  by (simp add: sint_sbintrunc' signed_take_bit_int_eq_self)

lemma sint_int64_diff:
  "- (2 ^ 63) \<le> sint (a :: int64) - sint b \<Longrightarrow> sint a - sint b < 2 ^ 63
     \<Longrightarrow> sint (a - b) = sint a - sint b"
  by (simp add: sint_word_ariths signed_take_bit_int_eq_self)

text \<open>A signature computed over the body with the secret is accepted on the inbound channel.\<close>

lemma verifyMetaSignature_valid:
  "verifyMetaSignature hm secret body (metaSignature hm secret body)"
  by (simp add: verifyMetaSignature_def metaSignature_def hmac_Equal_def Let_def TrimPrefix_def)

text \<open>An empty header is rejected; any other is accepted exactly when the hashes agree.\<close>

lemma verifyMetaSignature_iff:
  "verifyMetaSignature hm secret body header
     = (header \<noteq> [] \<and> hex (hm secret body) = TrimPrefix header ''sha256='')"
  by (simp add: verifyMetaSignature_def hmac_Equal_def Let_def)

text \<open>
  On the callback channel, an absent timestamp, an empty signature and a timestamp
  that \<open>ParseInt\<close> refuses are rejected.
\<close>

lemma verifySlackSignature_malformed:
  "timestamp = [] \<or> signature = [] \<or> ParseInt timestamp = None
     \<Longrightarrow> verifySlackSignature hm now secret timestamp body signature = False"
  by (auto simp: verifySlackSignature_def)

text \<open>
  A timestamp more than 300 seconds old is rejected, whatever the signature, as long
  as the age still fits the signed 64-bit range.
\<close>

lemma verifySlackSignature_stale:
  assumes "ParseInt timestamp = Some n"
    and "300 < sint now - n"
    and "sint now - n < 2 ^ 63"
  shows "verifySlackSignature hm now secret timestamp body signature = False"
proof -
  from assms(1) have rg: "- (2 ^ 63) \<le> n" "n < 2 ^ 63"
    using ParseInt_range by blast+
  have ts: "sint (word_of_int n :: int64) = n"
    using rg by (rule sint_int64_of_int)
  have "sint (now - (word_of_int n :: int64)) = sint now - n"
    using sint_int64_diff [of now "word_of_int n"] assms(2,3) ts by simp
  then have "300 <s now - (word_of_int n :: int64)"
    using assms(2) by (simp add: word_sless_alt)
  then show ?thesis
    using assms(1) by (simp add: verifySlackSignature_def)
qed

lemma ParseInt_min_int64: "ParseInt ''-9223372036854775808'' = Some (- 9223372036854775808)"
  by (simp add: ParseInt_def ParseUint_def digit_val_def)

lemma ParseInt_max_int64: "ParseInt ''9223372036854775807'' = Some 9223372036854775807"
  by (simp add: ParseInt_def ParseUint_def digit_val_def)

lemma ParseInt_above_int64: "ParseInt ''9223372036854775808'' = None"
  by (simp add: ParseInt_def ParseUint_def digit_val_def)

lemma ParseInt_1700000000: "ParseInt ''1700000000'' = Some 1700000000"
  by (simp add: ParseInt_def ParseUint_def digit_val_def)

text \<open>
  Claim C7, at the input where the code departs from it. The claim says that a
  callback whose timestamp is more than 300 seconds older than the current time is
  rejected even when its hash is valid. With the clock at 1700000000 and the
  timestamp header \<open>-9223372036854775808\<close>, the timestamp is older than the clock by
  far more than 300 seconds, yet the 64-bit subtraction \<open>now - ts\<close> wraps around to a
  negative number, the replay check passes, and a signature computed over that
  timestamp and the body is accepted.
\<close>

theorem verifySlackSignature_accepts_wrapped_age:
  "ParseInt ''-9223372036854775808'' = Some (- 9223372036854775808)
   \<and> (300 :: int) < 1700000000 - (- 9223372036854775808)
   \<and> verifySlackSignature hm 1700000000 secret ''-9223372036854775808'' body
        (slackSignature hm secret ''-9223372036854775808'' body)"
  by (simp add: verifySlackSignature_def slackSignature_def ParseInt_min_int64 hmac_Equal_def
      word_sless_alt)

text \<open>
  Claim C10, as amended. The replay check is one-sided. For every timestamp header
  that \<open>ParseInt\<close> accepts as a signed 64-bit decimal integer \<open>n\<close>, with \<open>n\<close> at or
  after the current time minus 300 seconds, and with the 64-bit difference of clock
  and timestamp not wrapping around (it never does when the clock is not negative),
  verification returns true exactly when the presented signature is the one computed
  over the version tag, the timestamp and the body. The timestamp may lie arbitrarily
  far in the future within the 64-bit range.
\<close>

theorem verifySlackSignature_one_sided:
  assumes "ParseInt timestamp = Some n"
    and "sint now - 300 \<le> n"
    and "0 \<le> sint now \<or> - (2 ^ 63) \<le> sint now - n"
  shows "verifySlackSignature hm now secret timestamp body signature
         = (signature = slackSignature hm secret timestamp body)"
proof -
  from assms(1) have ne: "timestamp \<noteq> []" and rg: "- (2 ^ 63) \<le> n" "n < 2 ^ 63"
    using ParseInt_nonempty ParseInt_range by blast+
  have lo: "- (2 ^ 63) \<le> sint now - n"
    using assms(3) rg by auto
  have ts: "sint (word_of_int n :: int64) = n"
    using rg by (rule sint_int64_of_int)
  have "sint (now - (word_of_int n :: int64)) = sint now - n"
    using sint_int64_diff [of now "word_of_int n"] assms(2) lo ts by simp
  then have fresh: "\<not> 300 <s now - (word_of_int n :: int64)"
    using assms(2) by (simp add: word_sless_alt)
  show ?thesis
    using ne fresh assms(1)
    by (auto simp: verifySlackSignature_def slackSignature_def hmac_Equal_def Let_def)
qed

theorem verifySlackSignature_one_sided_witness:
  "verifySlackSignature demo_hmac 1700000000 ''sec'' ''9223372036854775807'' ''payload''
     (slackSignature demo_hmac ''sec'' ''9223372036854775807'' ''payload'')"
proof -
  have a: "sint (1700000000 :: int64) - 300 \<le> 9223372036854775807" by simp
  have b: "0 \<le> sint (1700000000 :: int64) \<or> - (2 ^ 63) \<le> sint (1700000000 :: int64) - 9223372036854775807"
    by simp
  show ?thesis
    using verifySlackSignature_one_sided [OF ParseInt_max_int64 a b, of demo_hmac "''sec''" "''payload''"
        "slackSignature demo_hmac ''sec'' ''9223372036854775807'' ''payload''"]
    by simp
qed

text \<open>
  Claim C10 as stated fails one second further into the future: the header
  \<open>9223372036854775808\<close> is a decimal integer after the current time, and the
  signature presented is the one computed over it, but \<open>ParseInt\<close> reports a range
  error and the request is rejected.
\<close>

theorem verifySlackSignature_rejects_beyond_int64:
  "ParseUint ''9223372036854775808'' = Some 9223372036854775808
   \<and> (1700000000 :: int) - 300 \<le> 9223372036854775808
   \<and> \<not> verifySlackSignature demo_hmac 1700000000 ''sec'' ''9223372036854775808'' ''payload''
          (slackSignature demo_hmac ''sec'' ''9223372036854775808'' ''payload'')"
  by (simp add: verifySlackSignature_def ParseInt_above_int64 ParseUint_def digit_val_def)

section \<open>The LLM gateway: properties\<close>

lemma validate_ok: "ReplyToUser (validate r) \<noteq> [] \<and> validAction (Action (validate r))"
  by (simp add: validate_def Let_def validAction_def)

lemma validate_fields:
  "ReplyToUser (validate r)
     = (if ReplyToUser r = [] then ''I'm looking into that, one moment!'' else ReplyToUser r)"
  "Action (validate r) = (if validAction (Action r) then Action r else ''continue'')"
  "Extracted (validate r) = Extracted r"
  by (simp_all add: validate_def Let_def)

lemma Call_error_fallback:
  "snd (Call e apiKey history) \<noteq> None \<Longrightarrow> fst (Call e apiKey history) = Some fallback"
  by (auto simp: Call_def parse_reply_def split: http_result.splits option.splits if_splits)

lemma Call_not_nil: "fst (Call e apiKey history) \<noteq> None"
  by (auto simp: Call_def parse_reply_def split: http_result.splits option.splits if_splits)

lemma Call_success:
  assumes "snd (Call e apiKey history) = None"
  shows "\<exists>body c cs parsed.
           http_Do e (build_request e history) apiKey = HTTPResponse 200 body
         \<and> decode_deepSeekResponse e body = Some (c # cs)
         \<and> unmarshal_LLMResponse e c = Some parsed
         \<and> fst (Call e apiKey history) = Some (validate parsed)"
proof -
  from assms obtain body where b: "http_Do e (build_request e history) apiKey = HTTPResponse 200 body"
    and pr: "Call e apiKey history = parse_reply e body"
    by (auto simp: Call_def split: http_result.splits if_splits)
  from assms pr obtain choices where d: "decode_deepSeekResponse e body = Some choices"
    and ne: "choices \<noteq> []"
    by (auto simp: parse_reply_def split: option.splits if_splits)
  then obtain c cs where cs: "choices = c # cs"
    by (cases choices) auto
  from assms pr d cs obtain parsed where u: "unmarshal_LLMResponse e c = Some parsed"
    by (auto simp: parse_reply_def split: option.splits if_splits)
  have "fst (Call e apiKey history) = Some (validate parsed)"
    using pr d cs u by (simp add: parse_reply_def)
  with b d cs u show ?thesis by blast
qed

text \<open>
  Claim C2. For every history and credential, \<open>Call\<close> never returns a nil reply. On a
  transport failure, a status other than 200, a body that does not decode, an empty
  list of choices or a content that does not parse, it returns the fixed fallback
  reply (the apology text, action \<open>continue\<close>) with an error; whenever it returns an
  error the reply is the fallback. When it returns no error, the reply is the parsed
  one with an empty reply text replaced by the holding message and any action outside
  \<open>continue\<close>, \<open>handoff\<close>, \<open>schedule\<close> replaced by \<open>continue\<close>: its text is not
  empty and its action is one of the three.
\<close>

theorem Call_fallback_or_validated:
  "fst (Call e apiKey history) \<noteq> None
   \<and> ReplyToUser fallback = ''Sorry, I ran into a technical issue. Our team will follow up with you shortly.''
   \<and> Action fallback = ''continue''
   \<and> (http_Do e (build_request e history) apiKey = TransportError
        \<longrightarrow> Call e apiKey history = (Some fallback, Some ErrHttpCallFailed))
   \<and> (\<forall>code body. http_Do e (build_request e history) apiKey = HTTPResponse code body \<and> code \<noteq> 200
        \<longrightarrow> Call e apiKey history = (Some fallback, Some (ErrUnexpectedStatus code)))
   \<and> (\<forall>body. http_Do e (build_request e history) apiKey = HTTPResponse 200 body
          \<and> decode_deepSeekResponse e body = None
        \<longrightarrow> Call e apiKey history = (Some fallback, Some ErrDecodeResponse))
   \<and> (\<forall>body. http_Do e (build_request e history) apiKey = HTTPResponse 200 body
          \<and> decode_deepSeekResponse e body = Some []
        \<longrightarrow> Call e apiKey history = (Some fallback, Some ErrEmptyChoices))
   \<and> (\<forall>body c cs. http_Do e (build_request e history) apiKey = HTTPResponse 200 body
          \<and> decode_deepSeekResponse e body = Some (c # cs) \<and> unmarshal_LLMResponse e c = None
        \<longrightarrow> Call e apiKey history = (Some fallback, Some ErrParseJSONContent))
   \<and> (snd (Call e apiKey history) \<noteq> None \<longrightarrow> fst (Call e apiKey history) = Some fallback)
   \<and> (snd (Call e apiKey history) = None
        \<longrightarrow> (\<exists>body c cs parsed r.
               http_Do e (build_request e history) apiKey = HTTPResponse 200 body
             \<and> decode_deepSeekResponse e body = Some (c # cs)
             \<and> unmarshal_LLMResponse e c = Some parsed
             \<and> fst (Call e apiKey history) = Some r
             \<and> ReplyToUser r = (if ReplyToUser parsed = []
                                then ''I'm looking into that, one moment!'' else ReplyToUser parsed)
             \<and> Action r = (if validAction (Action parsed) then Action parsed else ''continue'')
             \<and> Extracted r = Extracted parsed
             \<and> ReplyToUser r \<noteq> []
             \<and> (Action r = ''continue'' \<or> Action r = ''handoff'' \<or> Action r = ''schedule'')))"
proof (intro conjI)
  show "fst (Call e apiKey history) \<noteq> None"
    by (rule Call_not_nil)
  show "snd (Call e apiKey history) \<noteq> None \<longrightarrow> fst (Call e apiKey history) = Some fallback"
    using Call_error_fallback by blast
  show "snd (Call e apiKey history) = None
        \<longrightarrow> (\<exists>body c cs parsed r.
               http_Do e (build_request e history) apiKey = HTTPResponse 200 body
             \<and> decode_deepSeekResponse e body = Some (c # cs)
             \<and> unmarshal_LLMResponse e c = Some parsed
             \<and> fst (Call e apiKey history) = Some r
             \<and> ReplyToUser r = (if ReplyToUser parsed = []
                                then ''I'm looking into that, one moment!'' else ReplyToUser parsed)
             \<and> Action r = (if validAction (Action parsed) then Action parsed else ''continue'')
             \<and> Extracted r = Extracted parsed
             \<and> ReplyToUser r \<noteq> []
             \<and> (Action r = ''continue'' \<or> Action r = ''handoff'' \<or> Action r = ''schedule''))"
  proof
    assume ok: "snd (Call e apiKey history) = None"
    from Call_success [OF ok] obtain body c cs parsed where
      b: "http_Do e (build_request e history) apiKey = HTTPResponse 200 body"
      and d: "decode_deepSeekResponse e body = Some (c # cs)"
      and u: "unmarshal_LLMResponse e c = Some parsed"
      and r: "fst (Call e apiKey history) = Some (validate parsed)"
      by blast
    have v: "validAction (Action (validate parsed))"
      by (simp add: validate_ok)
    have "Action (validate parsed) = ''continue'' \<or> Action (validate parsed) = ''handoff''
          \<or> Action (validate parsed) = ''schedule''"
      using v unfolding validAction_def .
    then show "\<exists>body c cs parsed r.
               http_Do e (build_request e history) apiKey = HTTPResponse 200 body
             \<and> decode_deepSeekResponse e body = Some (c # cs)
             \<and> unmarshal_LLMResponse e c = Some parsed
             \<and> fst (Call e apiKey history) = Some r
             \<and> ReplyToUser r = (if ReplyToUser parsed = []
                                then ''I'm looking into that, one moment!'' else ReplyToUser parsed)
             \<and> Action r = (if validAction (Action parsed) then Action parsed else ''continue'')
             \<and> Extracted r = Extracted parsed
             \<and> ReplyToUser r \<noteq> []
             \<and> (Action r = ''continue'' \<or> Action r = ''handoff'' \<or> Action r = ''schedule'')"
      using b d u r validate_ok [of parsed] validate_fields [of parsed] by blast
  qed
qed (auto simp: Call_def parse_reply_def fallback_def)

theorem Call_fallback_or_validated_witness:
  "Call demo_env ''key'' [] = (Some fallback, Some (ErrUnexpectedStatus 503))
   \<and> (\<exists>r. fst (Call demo_env_up ''key'' []) = Some r
          \<and> ReplyToUser r = ''I'm looking into that, one moment!''
          \<and> Action r = ''continue''
          \<and> Address (Extracted r) = ''x'')"
proof -
  have down: "http_Do demo_env (build_request demo_env []) ''key'' = HTTPResponse 503 [] \<and> (503 :: nat) \<noteq> 200"
    by (simp add: demo_env_def)
  have up: "snd (Call demo_env_up ''key'' []) = None"
    by (simp add: Call_def parse_reply_def demo_env_up_def demo_env_def)
  have d: "decode_deepSeekResponse demo_env_up b = Some [b]" for b
    by (simp add: demo_env_up_def demo_env_def)
  have h: "http_Do demo_env_up q k = HTTPResponse 200 ''x''" for q k
    by (simp add: demo_env_up_def demo_env_def)
  have u: "unmarshal_LLMResponse demo_env_up c = Some \<lparr>ReplyToUser = [],
          Extracted = \<lparr>Address = c, ElevatorAccess = [], Stairs = [], Inventory = []\<rparr>,
          Action = ''later''\<rparr>" for c
    by (simp add: demo_env_up_def demo_env_def)
  from Call_fallback_or_validated [of demo_env "''key''" "[]"] down
  have first: "Call demo_env ''key'' [] = (Some fallback, Some (ErrUnexpectedStatus 503))"
    by blast
  from Call_fallback_or_validated [of demo_env_up "''key''" "[]"] up
  obtain body c cs parsed r where
    "http_Do demo_env_up (build_request demo_env_up []) ''key'' = HTTPResponse 200 body"
    "decode_deepSeekResponse demo_env_up body = Some (c # cs)"
    "unmarshal_LLMResponse demo_env_up c = Some parsed"
    "fst (Call demo_env_up ''key'' []) = Some r"
    "ReplyToUser r = (if ReplyToUser parsed = []
                      then ''I'm looking into that, one moment!'' else ReplyToUser parsed)"
    "Action r = (if validAction (Action parsed) then Action parsed else ''continue'')"
    "Extracted r = Extracted parsed"
    by blast
  then have "fst (Call demo_env_up ''key'' []) = Some r
          \<and> ReplyToUser r = ''I'm looking into that, one moment!''
          \<and> Action r = ''continue''
          \<and> Address (Extracted r) = ''x''"
    by (auto simp: h d u validAction_def)
  with first show ?thesis by blast
qed

section \<open>The conversation store: properties\<close>

lemma apply_op_status:
  "conversations d p = Some st \<Longrightarrow>
     conversations (apply_op d opn) p = Some st \<or> conversations (apply_op d opn) p = Some ''PAUSED''"
  by (cases opn)
     (auto simp: apply_op_def UpsertConversation_def PauseConversation_def InsertMessage_def
        UpsertQuoteData_def split: option.splits)

lemma apply_op_paused:
  "conversations d p = Some ''PAUSED'' \<Longrightarrow> conversations (apply_op d opn) p = Some ''PAUSED''"
  using apply_op_status [of d p "''PAUSED''" opn] by auto

lemma run_ops_paused:
  "conversations d p = Some ''PAUSED'' \<Longrightarrow> conversations (run_ops ops d) p = Some ''PAUSED''"
  unfolding run_ops_def
  by (induction ops arbitrary: d) (simp_all add: apply_op_paused)

lemma run_ops_status:
  "conversations d p = Some st \<Longrightarrow>
     conversations (run_ops ops d) p = Some st \<or> conversations (run_ops ops d) p = Some ''PAUSED''"
  unfolding run_ops_def
proof (induction ops arbitrary: d)
  case Nil
  then show ?case by simp
next
  case (Cons opn ops)
  from apply_op_status [OF Cons.prems, of opn]
  show ?case
  proof
    assume "conversations (apply_op d opn) p = Some st"
    then show ?thesis using Cons.IH by simp
  next
    assume "conversations (apply_op d opn) p = Some ''PAUSED''"
    then show ?thesis
      using run_ops_paused [of "apply_op d opn" p ops] by (simp add: run_ops_def)
  qed
qed

text \<open>
  Claim C6. In every sequence of the store operations \<open>UpsertConversation\<close>,
  \<open>PauseConversation\<close>, \<open>InsertMessage\<close> and \<open>UpsertQuoteData\<close>, a conversation that
  is PAUSED stays PAUSED; a conversation row with any status keeps that status or
  becomes PAUSED, and is never deleted; \<open>UpsertConversation\<close> on an existing
  identifier leaves the store as it is; and a conversation that does not exist is
  created ACTIVE.
\<close>

theorem paused_is_absorbing:
  "(conversations d p = Some ''PAUSED'' \<longrightarrow> conversations (run_ops ops d) p = Some ''PAUSED'')
   \<and> (\<forall>st. conversations d p = Some st \<longrightarrow>
         (conversations (run_ops ops d) p = Some st \<or> conversations (run_ops ops d) p = Some ''PAUSED'')
         \<and> conversations (run_ops ops d) p \<noteq> None
         \<and> UpsertConversation d p = Inr d)
   \<and> (conversations d p = None \<longrightarrow>
         conversations (run_ops [OpUpsertConversation p] d) p = Some ''ACTIVE'')"
  using run_ops_paused [of d p ops] run_ops_status [of d p _ ops]
  by (auto simp: UpsertConversation_def run_ops_def apply_op_def)

theorem paused_is_absorbing_witness:
  "conversations (run_ops [OpUpsertConversation ''15550001'', OpPauseConversation ''15550001'',
       OpUpsertConversation ''15550001'', OpUpsertQuoteData ''15550001'' ''{}'']
       (demo_db ''PAUSED'')) ''15550001'' = Some ''PAUSED''
   \<and> UpsertConversation (demo_db ''PAUSED'') ''15550001'' = Inr (demo_db ''PAUSED'')"
proof -
  have "conversations (demo_db ''PAUSED'') ''15550001'' = Some ''PAUSED''"
    by (simp add: demo_db_def)
  then show ?thesis
    using paused_is_absorbing [of "demo_db ''PAUSED''" "''15550001''"
        "[OpUpsertConversation ''15550001'', OpPauseConversation ''15550001'',
          OpUpsertConversation ''15550001'', OpUpsertQuoteData ''15550001'' ''{}'']"]
    by blast
qed

section \<open>The inbound pipeline: properties\<close>

text \<open>The handler always returns: the nil dereference after the gateway call cannot happen.\<close>

lemma respond_returns: "\<exists>w'. respond e cfg phone history w = Returned w'"
  using Call_not_nil [of e "DeepSeekAPIKey cfg" history]
  by (auto simp: respond_def Let_def split: option.splits)

lemma gate_returns: "\<exists>w'. gate e cfg msg body w = Returned w'"
  using respond_returns [of e cfg "From msg"]
  by (auto simp: gate_def Let_def GetRecentMessages_def split: sum.splits)

lemma handleMessage_returns: "\<exists>w'. handleMessage e cfg msg w = Returned w'"
  using gate_returns [of e cfg msg]
  by (auto simp: handleMessage_def Let_def split: sum.splits)

text \<open>When the guard lets a payload through, every message of the batch reaches the handler.\<close>

lemma processInbound_guard_passed:
  assumes "unmarshal rawBody = Some payload"
    and "Entry payload \<noteq> []" and "Changes (hd (Entry payload)) \<noteq> []"
    and "Messages (Value (hd (Changes (hd (Entry payload))))) \<noteq> []"
  shows "processInbound unmarshal h rawBody w = handle_all h (batch payload) w"
  using assms by (simp add: processInbound_def)

lemma handle_all_trace:
  "handle_all (\<lambda>m handled. Returned (handled @ [m])) ms tr = Returned (tr @ ms)"
  by (induction ms arbitrary: tr) auto

text \<open>
  Claim C1, at the input where the code departs from it. The claim says that the
  pipeline handles every message of every entry and change, and stops early only
  when the payload holds no message at all. The payload \<open>receipt_then_message\<close> has
  one entry with two changes: the first carries no message, the second carries one
  text message. The guard of \<open>processInbound\<close> looks at the first change of the first
  entry only, so it returns before the loops: the handler is invoked for no message
  (the list of handled messages stays empty), and with the real handler the state is
  unchanged.
\<close>

theorem processInbound_skips_later_changes:
  "batch receipt_then_message = [demo_msg]
   \<and> processInbound (\<lambda>raw. Some receipt_then_message) (\<lambda>m handled. Returned (handled @ [m])) rawBody []
       = Returned []
   \<and> processInbound (\<lambda>raw. Some receipt_then_message) (handleMessage e cfg) rawBody w = Returned w"
  by (simp add: processInbound_def batch_def receipt_then_message_def)

theorem processInbound_skips_later_changes_witness:
  "HandleWhatsAppMessage demo_env demo_cfg (Some ''{}'') (metaSignature demo_hmac ''app'' ''{}'')
     (world_of (demo_db ''ACTIVE'')) = (200, world_of (demo_db ''ACTIVE''))"
proof -
  have v: "verifyMetaSignature (hmac_sha256 demo_env) (MetaAppSecret demo_cfg) ''{}''
            (metaSignature demo_hmac ''app'' ''{}'')"
    using verifyMetaSignature_valid [of demo_hmac "''app''" "''{}''"]
    by (simp add: demo_env_def demo_cfg_def)
  have u: "unmarshal_WAPayload demo_env = (\<lambda>raw. Some receipt_then_message)"
    by (simp add: demo_env_def)
  show ?thesis
    using processInbound_skips_later_changes [where e = demo_env and cfg = demo_cfg and rawBody = "''{}''"
        and w = "world_of (demo_db ''ACTIVE'')"] v
    by (simp add: HandleWhatsAppMessage_def u)
qed



text \<open>
  Claim C4. For every inbound text message whose identifier is already in the
  message store, the handler returns normally with the store unchanged (so no second
  row with that identifier), the gateway not invoked, no reply sent and no
  escalation posted.
\<close>

theorem duplicate_delivery_is_silent:
  assumes "Type msg = ''text''" and "Text msg \<noteq> None"
    and "MessageExists (db w) (WAID msg) = Inr True"
  shows "\<exists>w'. handleMessage e cfg msg w = Returned w'
     \<and> db w' = db w
     \<and> length (filter (\<lambda>m. ID m = WAID msg) (messages (db w')))
         = length (filter (\<lambda>m. ID m = WAID msg) (messages (db w)))
     \<and> llm_calls w' = llm_calls w
     \<and> sent w' = sent w
     \<and> slack_posts w' = slack_posts w"
  using assms
  by (auto simp: handleMessage_def lockFor_def Let_def)

theorem duplicate_delivery_is_silent_witness:
  "\<exists>w'. handleMessage demo_env demo_cfg demo_msg (world_of seen_db) = Returned w'
     \<and> db w' = seen_db \<and> llm_calls w' = [] \<and> sent w' = []"
proof -
  have a: "Type demo_msg = ''text''" "Text demo_msg \<noteq> None"
    by (simp_all add: demo_msg_def)
  have c: "MessageExists (db (world_of seen_db)) (WAID demo_msg) = Inr True"
    by (simp add: MessageExists_def world_of_def seen_db_def demo_msg_def)
  from duplicate_delivery_is_silent [OF a c, of demo_env demo_cfg] obtain w' where
    "handleMessage demo_env demo_cfg demo_msg (world_of seen_db) = Returned w'"
    "db w' = db (world_of seen_db)" "llm_calls w' = llm_calls (world_of seen_db)"
    "sent w' = sent (world_of seen_db)"
    by auto
  then show ?thesis
    by (intro exI [of _ w']) (simp add: world_of_def)
qed

text \<open>
  Claim C9. When the gateway call fails for a conversation that is not PAUSED, on
  an inbound text message not seen before, the handler still stores the fallback
  apology as an assistant message (under the synthesised identifier, which the code
  takes to be new: here it is assumed absent from the store) and overwrites the
  extracted-data row of the conversation with the serialisation of the fallback's
  mapping, whose four fields are empty, whatever the row held before; the apology is
  sent to the user.
\<close>

theorem gateway_failure_overwrites_extracted_data:
  assumes istext: "Type msg = ''text''" "Text msg = Some body"
    and unseen: "MessageExists (db w) (WAID msg) = Inr False"
    and active: "conversations (db w) (From msg) \<noteq> Some ''PAUSED''"
    and inb: "inbound = \<lparr>ID = WAID msg, ConversationID = From msg, Role = ''user'', Content = Body body\<rparr>"
    and hist: "GetRecentMessages ((db w)\<lparr>messages := messages (db w) @ [inbound]\<rparr>) (From msg) 20 = Inr history"
    and fails: "snd (Call e (DeepSeekAPIKey cfg) history) \<noteq> None"
    and aid: "aid = assistantMsgID (From msg) (UnixNano e (ticks w))"
    and fresh: "MessageExists ((db w)\<lparr>messages := messages (db w) @ [inbound]\<rparr>) aid = Inr False"
  shows "\<exists>w'. handleMessage e cfg msg w = Returned w'
     \<and> messages (db w') = messages (db w)
          @ [inbound, \<lparr>ID = aid, ConversationID = From msg, Role = ''assistant'', Content = ReplyToUser fallback\<rparr>]
     \<and> quote_data (db w') = (quote_data (db w))(From msg \<mapsto>
          marshal_ExtractedData e \<lparr>Address = [], ElevatorAccess = [], Stairs = [], Inventory = []\<rparr>)
     \<and> llm_calls w' = llm_calls w @ [(DeepSeekAPIKey cfg, history)]
     \<and> sent w' = sent w @ [(From msg, ReplyToUser fallback)]"
proof -
  have fb: "fst (Call e (DeepSeekAPIKey cfg) history) = Some fallback"
    using fails by (rule Call_error_fallback)
  have nf: "filter (\<lambda>m. ID m = aid) (messages (db w)) = []" "WAID msg \<noteq> aid"
    using fresh inb by (auto simp: MessageExists_def split: if_splits)
  have ne: "filter (\<lambda>m. ID m = WAID msg) (messages (db w)) = []"
    using unseen by (simp add: MessageExists_def)
  have h: "history = rev (take 20 (rev (filter (\<lambda>m. ConversationID m = From msg) (messages (db w) @ [inbound]))))"
    using hist by (simp add: GetRecentMessages_def)
  show ?thesis
  proof (cases "conversations (db w) (From msg)")
    case None
    then show ?thesis
      using istext fb nf ne inb h aid
      by (simp add: handleMessage_def gate_def respond_def dispatch_def lockFor_def sendWhatsApp_def
          MessageExists_def UpsertConversation_def GetConversationStatus_def InsertMessage_def
          GetRecentMessages_def UpsertQuoteData_def Let_def fallback_def)
  next
    case (Some st)
    then show ?thesis
      using istext fb nf ne inb h aid active
      by (simp add: handleMessage_def gate_def respond_def dispatch_def lockFor_def sendWhatsApp_def
          MessageExists_def UpsertConversation_def GetConversationStatus_def InsertMessage_def
          GetRecentMessages_def UpsertQuoteData_def Let_def fallback_def)
  qed
qed

lemma itoa_5: "itoa 5 = ''5''"
  by (simp add: itoa_def nat_digits.simps digit_char_def)

theorem gateway_failure_overwrites_extracted_data_witness:
  "\<exists>w'. handleMessage demo_env demo_cfg demo_msg (world_of (demo_db ''ACTIVE'')) = Returned w'
     \<and> messages (db w') =
          [\<lparr>ID = ''wamid.1'', ConversationID = ''15550001'', Role = ''user'', Content = ''hi''\<rparr>,
           \<lparr>ID = ''assistant-15550001-5'', ConversationID = ''15550001'', Role = ''assistant'',
            Content = ReplyToUser fallback\<rparr>]
     \<and> quote_data (demo_db ''ACTIVE'') ''15550001'' = Some ''old''
     \<and> quote_data (db w') ''15550001'' = Some '',,,''
     \<and> sent w' = [(''15550001'', ReplyToUser fallback)]"
proof -
  let ?w = "world_of (demo_db ''ACTIVE'')"
  let ?inb = "\<lparr>ID = ''wamid.1'', ConversationID = ''15550001'', Role = ''user'', Content = ''hi''\<rparr>"
  have a: "Type demo_msg = ''text''" "Text demo_msg = Some \<lparr>Body = ''hi''\<rparr>"
    by (simp_all add: demo_msg_def)
  have b: "MessageExists (db ?w) (WAID demo_msg) = Inr False"
    by (simp add: MessageExists_def world_of_def demo_db_def)
  have c: "conversations (db ?w) (From demo_msg) \<noteq> Some ''PAUSED''"
    by (simp add: world_of_def demo_db_def demo_msg_def)
  have d: "?inb = \<lparr>ID = WAID demo_msg, ConversationID = From demo_msg, Role = ''user'', Content = Body \<lparr>Body = ''hi''\<rparr>\<rparr>"
    by (simp add: demo_msg_def)
  have f: "GetRecentMessages ((db ?w)\<lparr>messages := messages (db ?w) @ [?inb]\<rparr>) (From demo_msg) 20 = Inr [?inb]"
    by (simp add: GetRecentMessages_def world_of_def demo_db_def demo_msg_def)
  have g: "snd (Call demo_env (DeepSeekAPIKey demo_cfg) [?inb]) \<noteq> None"
    by (simp add: Call_def demo_env_def)
  have i: "''assistant-15550001-5'' = assistantMsgID (From demo_msg) (UnixNano demo_env (ticks ?w))"
    by (simp add: assistantMsgID_def demo_msg_def demo_env_def world_of_def itoa_5)
  have j: "MessageExists ((db ?w)\<lparr>messages := messages (db ?w) @ [?inb]\<rparr>) ''assistant-15550001-5'' = Inr False"
    by (simp add: MessageExists_def world_of_def demo_db_def)
  from gateway_failure_overwrites_extracted_data [OF a b c d f g i j] obtain w' where
    "handleMessage demo_env demo_cfg demo_msg ?w = Returned w'"
    "messages (db w') = messages (db ?w)
          @ [?inb, \<lparr>ID = ''assistant-15550001-5'', ConversationID = From demo_msg, Role = ''assistant'', Content = ReplyToUser fallback\<rparr>]"
    "quote_data (db w') = (quote_data (db ?w))(From demo_msg \<mapsto>
          marshal_ExtractedData demo_env \<lparr>Address = [], ElevatorAccess = [], Stairs = [], Inventory = []\<rparr>)"
    "sent w' = sent ?w @ [(From demo_msg, ReplyToUser fallback)]"
    by auto
  then show ?thesis
    by (intro exI [of _ w']) (simp add: world_of_def demo_db_def demo_msg_def demo_env_def)
qed

section \<open>The escalation callback: properties\<close>

text \<open>
  Claim C5, as amended. The handler reads the first action of the callback only.
  For every callback that passes signature verification and whose first action is
  \<open>take_over_chat\<close>: if the conversation named by the action does not
  exist, the handler answers 200 with the "not found" warning and leaves the store
  as it is; if it is already PAUSED, it answers with the "already paused" message
  and leaves the store as it is; otherwise it sets the conversation to PAUSED and
  answers with the confirmation that contains the username of the acting operator.
\<close>

theorem take_over_outcomes:
  assumes "req_body r = Some rawBody"
    and "verifySlackSignature (hmac_sha256 e) now (SlackSigningSecret cfg)
           (X_Slack_Request_Timestamp r) rawBody (X_Slack_Signature r)"
    and "form_payload e rawBody = Some payloadJSON" and "payloadJSON \<noteq> []"
    and "unmarshal_SlackPayload e payloadJSON = Some slackPayload"
    and "Actions slackPayload = action # others"
    and "ActionID action = ''take_over_chat''"
  shows "(conversations d (ActionValue action) = None
            \<longrightarrow> HandleSlackInteractive e cfg now r d
                = (ReplaceOriginal True
                     ([CHR 0xE2, CHR 0x9A, CHR 0xA0, CHR 0xEF, CHR 0xB8, CHR 0x8F]
                        @ '' Conversation not found.''), d))
       \<and> (conversations d (ActionValue action) = Some ''PAUSED''
            \<longrightarrow> HandleSlackInteractive e cfg now r d
                = (ReplaceOriginal True
                     ([CHR 0xE2, CHR 0x84, CHR 0xB9, CHR 0xEF, CHR 0xB8, CHR 0x8F]
                        @ '' Chat was already paused.''), d))
       \<and> (\<forall>st. conversations d (ActionValue action) = Some st \<and> st \<noteq> ''PAUSED''
            \<longrightarrow> HandleSlackInteractive e cfg now r d
                = (ReplaceOriginal True
                     ([CHR 0xE2, CHR 0x9C, CHR 0x85] @ '' Chat paused. ''
                        @ Username (User slackPayload) @ '' has taken over the conversation.''),
                   d\<lparr>conversations := (conversations d)(ActionValue action \<mapsto> ''PAUSED'')\<rparr>))"
  using assms
  by (auto simp: HandleSlackInteractive_def decode_and_act_def take_over_def Let_def
      GetConversationStatus_def PauseConversation_def paused_by_text_def not_found_text_def
      already_paused_text_def)

lemma demo_request_verified:
  "verifySlackSignature (hmac_sha256 demo_env) 1700000100 (SlackSigningSecret demo_cfg)
     (X_Slack_Request_Timestamp demo_request) ''payload'' (X_Slack_Signature demo_request)"
  by (simp add: verifySlackSignature_def demo_env_def demo_cfg_def demo_request_def
      ParseInt_1700000000 slackSignature_def hmac_Equal_def word_sless_alt)

theorem take_over_outcomes_witness:
  "HandleSlackInteractive demo_env demo_cfg 1700000100 demo_request (demo_db ''ACTIVE'')
     = (ReplaceOriginal True
          ([CHR 0xE2, CHR 0x9C, CHR 0x85] @ '' Chat paused. ana has taken over the conversation.''),
        demo_db ''PAUSED'')
   \<and> HandleSlackInteractive demo_env demo_cfg 1700000100 demo_request (demo_db ''PAUSED'')
     = (ReplaceOriginal True already_paused_text, demo_db ''PAUSED'')"
proof -
  have a: "req_body demo_request = Some ''payload''"
    by (simp add: demo_request_def)
  have b: "form_payload demo_env ''payload'' = Some ''payload''"
    by (simp add: demo_env_def)
  have c: "unmarshal_SlackPayload demo_env ''payload'' = Some demo_slack_payload"
    by (simp add: demo_env_def)
  have d: "Actions demo_slack_payload = demo_action # []"
    by (simp add: demo_slack_payload_def)
  have f: "ActionID demo_action = ''take_over_chat''"
    by (simp add: demo_action_def)
  have g: "''payload'' \<noteq> []"
    by simp
  note th = take_over_outcomes [OF a demo_request_verified b g c d f]
  have v: "ActionValue demo_action = ''15550001''" "Username (User demo_slack_payload) = ''ana''"
    by (simp_all add: demo_action_def demo_slack_payload_def)
  have upd: "(demo_db ''ACTIVE'')\<lparr>conversations :=
               (conversations (demo_db ''ACTIVE''))(''15550001'' \<mapsto> ''PAUSED'')\<rparr> = demo_db ''PAUSED''"
    by (simp add: demo_db_def)
  show ?thesis
    using th [of "demo_db ''ACTIVE''"] th [of "demo_db ''PAUSED''"] upd
    by (simp add: v demo_db_def already_paused_text_def)
qed

text \<open>
  Claim C5 as stated, for every verified callback that carries the take-over
  action, fails when the action is not the first of the list. The callback below is
  verified and carries \<open>take_over_chat\<close> for an existing ACTIVE conversation in
  second position; its first action has another identifier, so the handler answers
  a bare 200, with no confirmation, and the conversation stays ACTIVE.
\<close>

theorem take_over_in_second_position_ignored:
  "verifySlackSignature (hmac_sha256 demo_env_second) 1700000100 (SlackSigningSecret demo_cfg)
     (X_Slack_Request_Timestamp demo_request) ''payload'' (X_Slack_Signature demo_request)
   \<and> unmarshal_SlackPayload demo_env_second ''payload'' = Some take_over_second_payload
   \<and> Actions take_over_second_payload = [other_action, demo_action]
   \<and> ActionID demo_action = ''take_over_chat''
   \<and> conversations (demo_db ''ACTIVE'') (ActionValue demo_action) = Some ''ACTIVE''
   \<and> HandleSlackInteractive demo_env_second demo_cfg 1700000100 demo_request (demo_db ''ACTIVE'')
       = (StatusOnly 200, demo_db ''ACTIVE'')"
proof -
  have sig: "verifySlackSignature (hmac_sha256 demo_env_second) 1700000100 (SlackSigningSecret demo_cfg)
     (X_Slack_Request_Timestamp demo_request) ''payload'' (X_Slack_Signature demo_request)"
    using demo_request_verified by (simp add: demo_env_second_def demo_env_def)
  have body: "req_body demo_request = Some ''payload''"
    by (simp add: demo_request_def)
  have form: "form_payload demo_env_second ''payload'' = Some ''payload''"
    by (simp add: demo_env_second_def demo_env_def)
  have dec: "unmarshal_SlackPayload demo_env_second ''payload'' = Some take_over_second_payload"
    by (simp add: demo_env_second_def demo_env_def)
  have acts: "Actions take_over_second_payload = [other_action, demo_action]"
    by (simp add: take_over_second_payload_def)
  have first: "ActionID other_action \<noteq> ''take_over_chat''"
    by (simp add: other_action_def)
  have second: "ActionID demo_action = ''take_over_chat''"
    by (simp add: demo_action_def)
  have st: "conversations (demo_db ''ACTIVE'') (ActionValue demo_action) = Some ''ACTIVE''"
    by (simp add: demo_db_def demo_action_def)
  have "decode_and_act demo_env_second ''payload'' (demo_db ''ACTIVE'') = (StatusOnly 200, demo_db ''ACTIVE'')"
    using form dec acts first by (simp add: decode_and_act_def Let_def)
  then have run: "HandleSlackInteractive demo_env_second demo_cfg 1700000100 demo_request (demo_db ''ACTIVE'')
       = (StatusOnly 200, demo_db ''ACTIVE'')"
    using sig body by (simp add: HandleSlackInteractive_def)
  show ?thesis
    using sig dec acts second st run by blast
qed

end
